theory Spec2Isabelle
  imports Complex_Main
begin

section \<open>Python values, exceptions and built-ins used by \<open>sagan_model.py\<close>\<close>

text \<open>
  The exceptions the module's own statements can raise, and one wrapper for whatever the
  tensor framework (TensorFlow and the helper module \<open>tfutil\<close>, imported as \<open>t\<close>)
  raises inside one of its calls.
\<close>

datatype error =
    SyntaxError
  | AssertionError
  | TypeError
  | FrameworkError string

text \<open>
  A Python number is an \<open>int\<close> or a float.  A \<open>numpy.float64\<close> is modelled by a real;
  \<open>np.log2\<close> is exact at powers of two, the only heights at which a value is computed
  below.  For a height that is not positive numpy returns \<open>-inf\<close> or \<open>nan\<close> with a
  warning (no exception), which is still a float.
\<close>

datatype pyval = PyInt int | PyFloat real

definition np_log2 :: "int \<Rightarrow> pyval" where
  "np_log2 v = PyFloat (log 2 (real_of_int v))"

fun py_sub :: "pyval \<Rightarrow> int \<Rightarrow> pyval" where
  "py_sub (PyInt a) b = PyInt (a - b)"
| "py_sub (PyFloat a) b = PyFloat (a - real_of_int b)"

text \<open>\<open>v // 2\<close>: floor division keeps the operand's type.\<close>

fun floordiv2 :: "pyval \<Rightarrow> pyval" where
  "floordiv2 (PyInt a) = PyInt (a div 2)"
| "floordiv2 (PyFloat a) = PyFloat (real_of_int \<lfloor>a / 2\<rfloor>)"

text \<open>
  \<open>range(a, b)\<close> (and \<open>range(b)\<close>, which is \<open>range(0, b)\<close>): every bound has to be an
  integer; a float bound raises \<open>TypeError\<close> ("object cannot be interpreted as an
  integer").
\<close>

fun py_range :: "pyval \<Rightarrow> pyval \<Rightarrow> error + int list" where
  "py_range (PyInt a) (PyInt b) = Inr [a..b - 1]"
| "py_range _ _ = Inl TypeError"

text \<open>\<open>'%d' % i\<close>: decimal digits, with a sign for a negative number.\<close>

fun digits :: "nat \<Rightarrow> string" where
  "digits n =
     (if n < 10 then [''0123456789'' ! n]
      else digits (n div 10) @ [''0123456789'' ! (n mod 10)])"

definition fmt_d :: "int \<Rightarrow> string" where
  "fmt_d i = (if i < 0 then CHR ''-'' # digits (nat (- i)) else digits (nat i))"

text \<open>\<open>name.startswith(c)\<close> for a one-character prefix.\<close>

fun startswith :: "string \<Rightarrow> char \<Rightarrow> bool" where
  "startswith [] c = False"
| "startswith (a # as) c = (a = c)"

text \<open>
  A \<open>def\<close> whose parameter list names one parameter twice does not compile: Python
  rejects the whole module with \<open>SyntaxError\<close> ("duplicate argument") before any of
  its statements runs.
\<close>

definition py_def :: "string list \<Rightarrow> error + unit" where
  "py_def params = (if distinct params then Inr () else Inl SyntaxError)"

section \<open>The tensor framework, taken as a parameter\<close>

text \<open>
  TensorFlow and \<open>tfutil\<close> are not part of \<open>sagan_model.py\<close>.  Every call into them
  is recorded as an operation (its name and its non-tensor arguments) applied to a list of
  tensors in the current graph; what the call returns, how it changes the graph and
  whether it raises is left to the framework, which is a parameter of the model.
  \<open>Scoped name reuse op\<close> is a call made inside
  \<open>with tf.variable_scope(name, reuse=reuse)\<close>.
\<close>

datatype session = Session

datatype 'v op =
    Placeholder "int option list" string
  | Dense int string
  | Conv2d int int int string
  | Deconv2d int int int string
  | BatchNorm "bool option option" string
  | LeakyRelu real
  | Relu
  | Tanh
  | Dropout real string
  | Flatten
  | Reshape "int list"
  | SceLoss
  | OnesLike
  | ZerosLike
  | Add
  | SummaryScalar string
  | AdamMinimize real real real "'v list"
  | MergeAll
  | Saver int
  | FileWriter string session
  | Scoped string "bool option" "'v op"

record ('t, 'v, 'g) framework =
  run_op :: "'v op \<Rightarrow> 't list \<Rightarrow> 'g \<Rightarrow> (string + 't) \<times> 'g"
  trainable_variables :: "'g \<Rightarrow> 'v list"
  var_name :: "'v \<Rightarrow> string"

subsection \<open>Statements in sequence: state passing with exceptions\<close>

text \<open>
  A statement runs on a state and either yields a value or raises; the state it leaves
  behind is kept in both cases (the graph is global, the object is mutated in place).
\<close>

type_synonym ('a, 's) action = "'s \<Rightarrow> (error + 'a) \<times> 's"

definition ret :: "'a \<Rightarrow> ('a, 's) action" where
  "ret a = (\<lambda>s. (Inr a, s))"

definition raise :: "error \<Rightarrow> ('a, 's) action" where
  "raise e = (\<lambda>s. (Inl e, s))"

definition raise_or :: "error + 'a \<Rightarrow> ('a, 's) action" where
  "raise_or r = (\<lambda>s. (r, s))"

definition seq :: "('a, 's) action \<Rightarrow> ('a \<Rightarrow> ('b, 's) action) \<Rightarrow> ('b, 's) action" where
  "seq m k = (\<lambda>s. case m s of (Inl e, s') \<Rightarrow> (Inl e, s') | (Inr a, s') \<Rightarrow> k a s')"

fun for_each :: "('i \<Rightarrow> 'a \<Rightarrow> ('a, 's) action) \<Rightarrow> 'i list \<Rightarrow> 'a \<Rightarrow> ('a, 's) action" where
  "for_each body [] x = ret x"
| "for_each body (i # is) x = seq (body i x) (for_each body is)"

definition call :: "('t, 'v, 'g) framework \<Rightarrow> 'v op \<Rightarrow> 't list \<Rightarrow> ('t, 'g) action" where
  "call fw opr args =
     (\<lambda>g. case run_op fw opr args g of
             (Inl msg, g') \<Rightarrow> (Inl (FrameworkError msg), g')
           | (Inr t, g') \<Rightarrow> (Inr t, g'))"

text \<open>Statements of a method: the state is the object \<open>self\<close> together with the graph.\<close>

definition on_graph :: "('a, 'g) action \<Rightarrow> ('a, 'o \<times> 'g) action" where
  "on_graph m = (\<lambda>(self, g). case m g of (r, g') \<Rightarrow> (r, (self, g')))"

definition get_self :: "('o, 'o \<times> 'g) action" where
  "get_self = (\<lambda>(self, g). (Inr self, (self, g)))"

definition get_graph :: "('g, 'o \<times> 'g) action" where
  "get_graph = (\<lambda>(self, g). (Inr g, (self, g)))"

definition assign :: "('o \<Rightarrow> 'o) \<Rightarrow> (unit, 'o \<times> 'g) action" where
  "assign f = (\<lambda>(self, g). (Inr (), (f self, g)))"

section \<open>The class \<open>SAGAN\<close>\<close>

subsection \<open>Constructor arguments and attributes\<close>

text \<open>
  The parameter list of \<open>__init__\<close> as written on lines 16 to 18; \<open>gf_dim\<close> occurs
  twice (defaults 64 and 384).
\<close>

definition init_params :: "string list" where
  "init_params =
     [''self'', ''s'', ''batch_size'', ''height'', ''width'', ''channel'', ''n_classes'',
      ''sample_num'', ''sample_size'',
      ''df_dim'', ''gf_dim'', ''gf_dim'', ''fc_unit'', ''z_dim'', ''lr'']"

text \<open>
  The arguments of one call.  The session \<open>s\<close> is the field \<open>sess\<close>; the body reads one
  \<open>gf_dim\<close>.
\<close>

record config =
  sess :: session
  batch_size :: int
  height :: int
  width :: int
  channel :: int
  n_classes :: int
  sample_num :: int
  sample_size :: int
  df_dim :: int
  gf_dim :: int
  fc_unit :: int
  z_dim :: int
  lr :: real

definition default_config :: config where
  "default_config =
     \<lparr>sess = Session, batch_size = 100, height = 32, width = 32, channel = 3,
      n_classes = 10, sample_num = 10 * 10, sample_size = 10,
      df_dim = 64, gf_dim = 64, fc_unit = 512, z_dim = 128, lr = 1 / 10000\<rparr>"

text \<open>A loss attribute holds the float it is initialised with, or later a tensor.\<close>

datatype 't loss = Num real | Tens 't

text \<open>
  The attributes of the object; \<open>self.g\<close>, \<open>self.x\<close> and \<open>self.z\<close> are the fields
  \<open>g_img\<close>, \<open>x_ph\<close> and \<open>z_ph\<close>.
\<close>

record 't sagan = config +
  image_shape :: "int list"
  n_layer :: pyval
  beta1 :: real
  beta2 :: real
  g_loss :: "'t loss"
  d_loss :: "'t loss"
  c_loss :: "'t loss"
  g_img :: "'t option"
  g_test :: "'t option"
  d_op :: "'t option"
  g_op :: "'t option"
  merged :: "'t option"
  writer :: "'t option"
  saver :: "'t option"
  x_ph :: 't
  z_ph :: 't

section \<open>The layer count (line 52)\<close>

text \<open>\<open>self.n_layer = np.log2(self.height) - 2\<close>\<close>

definition n_layer_of :: "int \<Rightarrow> pyval" where
  "n_layer_of h = py_sub (np_log2 h) 2"

subsection \<open>\<open>__init__\<close>, lines 43 to 80: the attribute assignments\<close>

definition init_fields :: "config \<Rightarrow> 't \<Rightarrow> 't \<Rightarrow> 't sagan" where
  "init_fields cfg xt zt =
     \<lparr>sess = sess cfg, batch_size = batch_size cfg,
      height = height cfg, width = width cfg, channel = channel cfg,
      n_classes = n_classes cfg,
      sample_num = sample_num cfg, sample_size = sample_size cfg,
      df_dim = df_dim cfg, gf_dim = gf_dim cfg, fc_unit = fc_unit cfg,
      z_dim = z_dim cfg, lr = lr cfg,
      image_shape = [batch_size cfg, height cfg, width cfg, channel cfg],
      n_layer = n_layer_of (height cfg),
      beta1 = 0, beta2 = 9 / 10,
      g_loss = Num 0, d_loss = Num 0, c_loss = Num 0,
      g_img = None, g_test = None, d_op = None, g_op = None,
      merged = None, writer = None, saver = None,
      x_ph = xt, z_ph = zt\<rparr>"

subsection \<open>\<open>discriminator\<close>, lines 90 to 113\<close>

text \<open>One pass of \<open>for i in range(5)\<close>, lines 103 to 106.\<close>

definition disc_stage ::
  "('t, 'v, 'g) framework \<Rightarrow> 't sagan \<Rightarrow> bool option \<Rightarrow> int \<Rightarrow> 't \<Rightarrow> ('t, 'g) action" where
  "disc_stage fw self reuse i x =
     seq (call fw (Scoped ''discriminator'' reuse
            (Conv2d (df_dim self * 2 ^ nat (i + 1)) 3 (i mod 2 + 1)
               (''disc-conv2d-'' @ fmt_d (i + 2)))) [x]) (\<lambda>x.
     seq (call fw (Scoped ''discriminator'' reuse
            (BatchNorm (Some reuse) (''disc-bn-'' @ fmt_d (i + 1)))) [x]) (\<lambda>x.
     seq (call fw (Scoped ''discriminator'' reuse (LeakyRelu (2 / 10))) [x]) (\<lambda>x.
     call fw (Scoped ''discriminator'' reuse
            (Dropout (5 / 10) (''disc-dropout2d-'' @ fmt_d (i + 1)))) [x])))"

definition discriminator ::
  "('t, 'v, 'g) framework \<Rightarrow> 't sagan \<Rightarrow> 't \<Rightarrow> bool option \<Rightarrow> ('t \<times> 't \<times> 't, 'g) action" where
  "discriminator fw self x reuse =
     seq (call fw (Scoped ''discriminator'' reuse
            (Conv2d (df_dim self) 3 2 ''disc-conv2d-1'')) [x]) (\<lambda>x.
     seq (call fw (Scoped ''discriminator'' reuse (LeakyRelu (2 / 10))) [x]) (\<lambda>x.
     seq (call fw (Scoped ''discriminator'' reuse
            (Dropout (5 / 10) ''disc-dropout2d-1'')) [x]) (\<lambda>x.
     seq (raise_or (py_range (PyInt 0) (PyInt 5))) (\<lambda>r.
     seq (for_each (disc_stage fw self reuse) r x) (\<lambda>x.
     seq (call fw (Scoped ''discriminator'' reuse Flatten) [x]) (\<lambda>net.
     seq (call fw (Scoped ''discriminator'' reuse
            (Dense (n_classes self) ''disc-fc-cat'')) [net]) (\<lambda>cat.
     seq (call fw (Scoped ''discriminator'' reuse
            (Dense 1 ''disc-fc-disc'')) [net]) (\<lambda>disc.
     ret (cat, disc, net)))))))))"

subsection \<open>\<open>generator\<close>, lines 115 to 157\<close>

text \<open>
  One pass of either loop: lines 131 to 139 and lines 145 to 153 are the same text.
  The loop variable comes from \<open>range\<close> and is never negative here, so \<open>2 ** (i + 1)\<close>
  is an integer power.
\<close>

definition gen_stage ::
  "('t, 'v, 'g) framework \<Rightarrow> 't sagan \<Rightarrow> bool option \<Rightarrow> bool \<Rightarrow> int \<Rightarrow> 't \<Rightarrow> ('t, 'g) action" where
  "gen_stage fw self reuse up_sampling i x =
     (let f = gf_dim self * 8 div 2 ^ nat (i + 1) in
      seq (if up_sampling
           then call fw (Scoped ''generator'' reuse
                  (Conv2d f 5 1 (''gen-conv2d-'' @ fmt_d (i + 1)))) [x]
           else call fw (Scoped ''generator'' reuse
                  (Deconv2d f 4 2 (''gen-deconv2d-'' @ fmt_d (i + 1)))) [x]) (\<lambda>x.
      seq (call fw (Scoped ''generator'' reuse
             (BatchNorm None (''gen-bn-'' @ fmt_d i))) [x]) (\<lambda>x.
      call fw (Scoped ''generator'' reuse Relu) [x])))"

text \<open>Line 142, the self-attention layer: \<open>x = x\<close>.\<close>

definition self_attention :: "'t \<Rightarrow> ('t, 'g) action" where
  "self_attention x = ret x"

definition generator ::
  "('t, 'v, 'g) framework \<Rightarrow> 't sagan \<Rightarrow> 't \<Rightarrow> bool option \<Rightarrow> bool \<Rightarrow> ('t, 'g) action" where
  "generator fw self z reuse is_train =
     seq (call fw (Scoped ''generator'' reuse
            (Dense (4 * 4 * gf_dim self * 8) ''gen-fc-1'')) [z]) (\<lambda>x.
     seq (call fw (Scoped ''generator'' reuse Relu) [x]) (\<lambda>x.
     seq (call fw (Scoped ''generator'' reuse
            (Reshape [- 1, 4, 4, gf_dim self * 8])) [x]) (\<lambda>x.
     seq (raise_or (py_range (PyInt 0) (floordiv2 (n_layer self)))) (\<lambda>r1.
     seq (for_each (gen_stage fw self reuse True) r1 x) (\<lambda>x.
     seq (self_attention x) (\<lambda>x.
     seq (raise_or (py_range (floordiv2 (n_layer self)) (n_layer self))) (\<lambda>r2.
     seq (for_each (gen_stage fw self reuse True) r2 x) (\<lambda>x.
     seq (call fw (Scoped ''generator'' reuse
            (Conv2d (channel self) 5 1 ''gen-conv2d-5'')) [x]) (\<lambda>x.
     call fw (Scoped ''generator'' reuse Tanh) [x])))))))))"

text \<open>
  The generator as the specification describes it, for comparison with the one above: the
  self-attention stage is an identity, so the text of lines 123 to 157 with line 142 left
  out.
\<close>

definition generator_without_attention ::
  "('t, 'v, 'g) framework \<Rightarrow> 't sagan \<Rightarrow> 't \<Rightarrow> bool option \<Rightarrow> bool \<Rightarrow> ('t, 'g) action" where
  "generator_without_attention fw self z reuse is_train =
     seq (call fw (Scoped ''generator'' reuse
            (Dense (4 * 4 * gf_dim self * 8) ''gen-fc-1'')) [z]) (\<lambda>x.
     seq (call fw (Scoped ''generator'' reuse Relu) [x]) (\<lambda>x.
     seq (call fw (Scoped ''generator'' reuse
            (Reshape [- 1, 4, 4, gf_dim self * 8])) [x]) (\<lambda>x.
     seq (raise_or (py_range (PyInt 0) (floordiv2 (n_layer self)))) (\<lambda>r1.
     seq (for_each (gen_stage fw self reuse True) r1 x) (\<lambda>x.
     seq (raise_or (py_range (floordiv2 (n_layer self)) (n_layer self))) (\<lambda>r2.
     seq (for_each (gen_stage fw self reuse True) r2 x) (\<lambda>x.
     seq (call fw (Scoped ''generator'' reuse
            (Conv2d (channel self) 5 1 ''gen-conv2d-5'')) [x]) (\<lambda>x.
     call fw (Scoped ''generator'' reuse Tanh) [x]))))))))"

subsection \<open>\<open>build_sagan\<close>, lines 159 to 193\<close>

text \<open>Lines 181 and 182: \<open>[v for v in t_vars if v.name.startswith(c)]\<close>.\<close>

definition select_params :: "('t, 'v, 'g) framework \<Rightarrow> char \<Rightarrow> 'v list \<Rightarrow> 'v list" where
  "select_params fw c t_vars = filter (\<lambda>v. startswith (var_name fw v) c) t_vars"

text \<open>
  Lines 167 to 193, from the two results of the discriminator: the losses, the summaries,
  the two optimizers, the merged summary, the saver and the writer.
\<close>

definition build_sagan_tail ::
  "('t, 'v, 'g) framework \<Rightarrow> 't \<times> 't \<times> 't \<Rightarrow> 't \<times> 't \<times> 't \<Rightarrow> (unit, 't sagan \<times> 'g) action" where
  "build_sagan_tail fw res_real res_fake =
     (case res_real of (c_real, d_real, net_real) \<Rightarrow>
      case res_fake of (c_fake, d_fake, net_fake) \<Rightarrow>
     seq (on_graph (call fw OnesLike [d_real])) (\<lambda>ones_real.
     seq (on_graph (call fw SceLoss [d_real, ones_real])) (\<lambda>d_real_loss.
     seq (on_graph (call fw ZerosLike [d_fake])) (\<lambda>zeros_fake.
     seq (on_graph (call fw SceLoss [d_fake, zeros_fake])) (\<lambda>d_fake_loss.
     seq (on_graph (call fw Add [d_real_loss, d_fake_loss])) (\<lambda>dl.
     seq (assign (\<lambda>self. self\<lparr>d_loss := Tens dl\<rparr>)) (\<lambda>_.
     seq (on_graph (call fw OnesLike [d_fake])) (\<lambda>ones_fake.
     seq (on_graph (call fw SceLoss [d_fake, ones_fake])) (\<lambda>gl.
     seq (assign (\<lambda>self. self\<lparr>g_loss := Tens gl\<rparr>)) (\<lambda>_.
     seq (on_graph (call fw (SummaryScalar ''loss/d_real_loss'') [d_real_loss])) (\<lambda>_.
     seq (on_graph (call fw (SummaryScalar ''loss/d_fake_loss'') [d_fake_loss])) (\<lambda>_.
     seq (on_graph (call fw (SummaryScalar ''loss/d_loss'') [dl])) (\<lambda>_.
     seq (on_graph (call fw (SummaryScalar ''loss/g_loss'') [gl])) (\<lambda>_.
     seq get_graph (\<lambda>g.
     seq get_self (\<lambda>self.
       (let t_vars = trainable_variables fw g;
            d_params = select_params fw CHR ''d'' t_vars;
            g_params = select_params fw CHR ''g'' t_vars in
     seq (on_graph (call fw
            (AdamMinimize (lr self * 4) (beta1 self) (beta2 self) d_params) [dl])) (\<lambda>dop.
     seq (assign (\<lambda>self. self\<lparr>d_op := Some dop\<rparr>)) (\<lambda>_.
     seq (on_graph (call fw
            (AdamMinimize (lr self * 1) (beta1 self) (beta2 self) g_params) [gl])) (\<lambda>gop.
     seq (assign (\<lambda>self. self\<lparr>g_op := Some gop\<rparr>)) (\<lambda>_.
     seq (on_graph (call fw MergeAll [])) (\<lambda>m.
     seq (assign (\<lambda>self. self\<lparr>merged := Some m\<rparr>)) (\<lambda>_.
     seq (on_graph (call fw (Saver 1) [])) (\<lambda>sv.
     seq (assign (\<lambda>self. self\<lparr>saver := Some sv\<rparr>)) (\<lambda>_.
     seq (on_graph (call fw (FileWriter ''./model/'' (sess self)) [])) (\<lambda>w.
     assign (\<lambda>self. self\<lparr>writer := Some w\<rparr>)))))))))))))))))))))))))))"

definition build_sagan :: "('t, 'v, 'g) framework \<Rightarrow> (unit, 't sagan \<times> 'g) action" where
  "build_sagan fw =
     seq get_self (\<lambda>self.
     seq (on_graph (generator fw self (z_ph self) None True)) (\<lambda>gx.
     seq (assign (\<lambda>self. self\<lparr>g_img := Some gx\<rparr>)) (\<lambda>_.
     seq get_self (\<lambda>self.
     seq (on_graph (discriminator fw self (x_ph self) None)) (\<lambda>res_real.
     seq (on_graph (discriminator fw self gx (Some True))) (\<lambda>res_fake.
     build_sagan_tail fw res_real res_fake))))))"

subsection \<open>\<open>__init__\<close>, lines 43 to 88, and the call \<open>SAGAN(s, ...)\<close>\<close>

text \<open>
  Nothing on lines 43 to 52 can raise, so the assertion of line 53 is the first thing that
  can; the attributes are collected into the object once both placeholders exist.  When
  \<open>build_sagan\<close> raises, the caller gets no object; the graph keeps what was added.
\<close>

definition SAGAN_init :: "('t, 'v, 'g) framework \<Rightarrow> config \<Rightarrow> ('t sagan, 'g) action" where
  "SAGAN_init fw cfg =
     (if height cfg \<noteq> width cfg then raise AssertionError
      else
        seq (call fw (Placeholder [None, Some (height cfg), Some (width cfg),
                                   Some (channel cfg)] ''x-image'') []) (\<lambda>xt.
        seq (call fw (Placeholder [None, Some (z_dim cfg)] ''z-noise'') []) (\<lambda>zt.
          (\<lambda>g. case build_sagan fw (init_fields cfg xt zt, g) of
                  (Inl e, (self, g')) \<Rightarrow> (Inl e, g')
                | (Inr u, (self, g')) \<Rightarrow> (Inr self, g')))))"

text \<open>
  Importing the module compiles the \<open>def\<close> of \<open>__init__\<close> first; only then can the class
  be called.
\<close>

definition SAGAN_construct :: "('t, 'v, 'g) framework \<Rightarrow> config \<Rightarrow> ('t sagan, 'g) action" where
  "SAGAN_construct fw cfg =
     (case py_def init_params of
        Inl e \<Rightarrow> raise e
      | Inr u \<Rightarrow> SAGAN_init fw cfg)"

section \<open>A symbolic framework\<close>

text \<open>
  Modelled from the spec: TensorFlow and \<open>tfutil\<close> are missing from the sources.  In this
  instance no call raises, a tensor is the expression that built it, and the graph is the
  list of nodes in the order they were added.  Learned parameters are per-layer weight and
  bias tensors scoped by name; a layer invoked with reuse takes the parameters that exist
  and creates none.
\<close>

datatype node = Node "string op" "node list"

fun layer_params :: "string op \<Rightarrow> string list" where
  "layer_params (Scoped sc reuse (Dense u n)) =
     (if reuse = Some True then [] else [sc @ ''/'' @ n @ ''/weight'', sc @ ''/'' @ n @ ''/bias''])"
| "layer_params (Scoped sc reuse (Conv2d f k st n)) =
     (if reuse = Some True then [] else [sc @ ''/'' @ n @ ''/weight'', sc @ ''/'' @ n @ ''/bias''])"
| "layer_params (Scoped sc reuse (Deconv2d f k st n)) =
     (if reuse = Some True then [] else [sc @ ''/'' @ n @ ''/weight'', sc @ ''/'' @ n @ ''/bias''])"
| "layer_params (Scoped sc reuse (BatchNorm r n)) =
     (if reuse = Some True then [] else [sc @ ''/'' @ n @ ''/weight'', sc @ ''/'' @ n @ ''/bias''])"
| "layer_params opr = []"

fun node_params :: "node \<Rightarrow> string list" where
  "node_params (Node opr args) = layer_params opr"

definition sym_fw :: "(node, string, node list) framework" where
  "sym_fw =
     \<lparr>run_op = (\<lambda>opr args g. (Inr (Node opr args), g @ [Node opr args])),
      trainable_variables = (\<lambda>g. concat (map node_params g)),
      var_name = (\<lambda>v. v)\<rparr>"

section \<open>Properties\<close>

subsection \<open>The layer count is a float, and \<open>range\<close> rejects it\<close>

lemma log2_32: "log 2 (32::real) = 5"
proof -
  have "log 2 ((2::real) ^ 5) = real 5"
    by (rule log_pow_cancel) simp_all
  then show ?thesis by simp
qed

lemma n_layer_init_fields:
  "n_layer (init_fields cfg xt zt) = PyFloat (log 2 (real_of_int (height cfg)) - 2)"
  by (simp add: init_fields_def n_layer_of_def np_log2_def)

lemma range_float: "py_range a (floordiv2 (PyFloat v)) = Inl TypeError"
  by (cases a) simp_all

lemma generator_float:
  assumes "n_layer self = PyFloat v"
  shows "fst (generator fw self z reuse tr g) = Inl TypeError
         \<or> (\<exists>msg. fst (generator fw self z reuse tr g) = Inl (FrameworkError msg))"
  using assms
  by (auto simp: generator_def seq_def call_def raise_or_def range_float
           split: prod.splits sum.splits)

lemma build_sagan_aborts:
  assumes "n_layer self = PyFloat v"
  shows "\<exists>e. build_sagan fw (self, g) =
           (Inl e, (self, snd (generator fw self (z_ph self) None True g)))
         \<and> fst (generator fw self (z_ph self) None True g) = Inl e"
proof -
  obtain r g' where gen: "generator fw self (z_ph self) None True g = (r, g')"
    by (cases "generator fw self (z_ph self) None True g")
  obtain e where e: "r = Inl e"
    using generator_float [OF assms, of fw "z_ph self" None True g] gen by auto
  have "build_sagan fw (self, g) = (Inl e, (self, g'))"
    by (simp add: build_sagan_def seq_def get_self_def on_graph_def gen e)
  with gen e show ?thesis by simp
qed

lemma generator_init_fields:
  "fst (generator fw (init_fields cfg xt zt) z reuse tr g) = Inl TypeError
   \<or> (\<exists>msg. fst (generator fw (init_fields cfg xt zt) z reuse tr g)
             = Inl (FrameworkError msg))"
  by (rule generator_float) (rule n_layer_init_fields)

lemma build_sagan_init_fields:
  "\<exists>e. build_sagan fw (init_fields cfg xt zt, g) =
          (Inl e, (init_fields cfg xt zt,
                   snd (generator fw (init_fields cfg xt zt) zt None True g)))
       \<and> fst (generator fw (init_fields cfg xt zt) zt None True g) = Inl e"
proof -
  have z: "z_ph (init_fields cfg xt zt) = zt"
    by (simp add: init_fields_def)
  have "\<exists>e. build_sagan fw (init_fields cfg xt zt, g) =
          (Inl e, (init_fields cfg xt zt,
                   snd (generator fw (init_fields cfg xt zt)
                          (z_ph (init_fields cfg xt zt)) None True g)))
       \<and> fst (generator fw (init_fields cfg xt zt)
                 (z_ph (init_fields cfg xt zt)) None True g) = Inl e"
    by (rule build_sagan_aborts) (rule n_layer_init_fields)
  then show ?thesis by (simp only: z)
qed

subsection \<open>Attributes that a statement sequence leaves alone\<close>

lemma keep_seq:
  assumes "\<And>s. f (fst (snd (m s))) = f (fst s)"
    and "\<And>a s. f (fst (snd (k a s))) = f (fst s)"
  shows "f (fst (snd (seq m k s))) = f (fst s)"
proof -
  obtain r s' where ms: "m s = (r, s')"
    by (cases "m s")
  show ?thesis
  proof (cases r)
    case (Inl e)
    with ms assms(1) [of s] show ?thesis by (simp add: seq_def)
  next
    case (Inr a)
    with ms assms(1) [of s] assms(2) [of a s'] show ?thesis by (simp add: seq_def)
  qed
qed

lemma keep_on_graph: "f (fst (snd (on_graph m s))) = f (fst s)"
  by (simp add: on_graph_def split: prod.splits)

lemma keep_get_self: "f (fst (snd (get_self s))) = f (fst s)"
  by (simp add: get_self_def split: prod.splits)

lemma keep_get_graph: "f (fst (snd (get_graph s))) = f (fst s)"
  by (simp add: get_graph_def split: prod.splits)

lemma keep_assign: "(\<And>self. f (u self) = f self) \<Longrightarrow> f (fst (snd (assign u s))) = f (fst s)"
  by (simp add: assign_def split: prod.splits)

lemma tail_keeps_c_loss:
  "c_loss (fst (snd (build_sagan_tail fw r1 r2 s))) = c_loss (fst s)"
  unfolding build_sagan_tail_def Let_def
  apply (cases r1; cases r2; simp only: prod.case)
  apply (intro keep_seq keep_on_graph keep_get_self keep_get_graph keep_assign)
  apply simp_all
  done

lemma build_keeps_c_loss:
  "c_loss (fst (snd (build_sagan fw s))) = c_loss (fst s)"
  unfolding build_sagan_def
  apply (intro keep_seq keep_on_graph keep_get_self keep_get_graph keep_assign tail_keeps_c_loss)
  apply simp_all
  done

subsection \<open>What \<open>__init__\<close> can raise\<close>

lemma SAGAN_init_result:
  "fst (SAGAN_init fw cfg g) = Inl AssertionError \<and> height cfg \<noteq> width cfg
   \<or> fst (SAGAN_init fw cfg g) = Inl TypeError \<and> height cfg = width cfg
   \<or> (\<exists>msg. fst (SAGAN_init fw cfg g) = Inl (FrameworkError msg)) \<and> height cfg = width cfg"
proof (cases "height cfg = width cfg")
  case False
  then show ?thesis by (simp add: SAGAN_init_def raise_def)
next
  case True
  let ?px = "call fw (Placeholder [None, Some (height cfg), Some (width cfg),
                                   Some (channel cfg)] ''x-image'') [] g"
  obtain rx g1 where px: "?px = (rx, g1)" by (cases ?px)
  show ?thesis
  proof (cases rx)
    case (Inl e)
    with px have "\<exists>msg. e = FrameworkError msg"
      by (auto simp: call_def split: prod.splits sum.splits)
    with Inl px True show ?thesis by (auto simp: SAGAN_init_def seq_def)
  next
    case xt: (Inr xt)
    let ?pz = "call fw (Placeholder [None, Some (z_dim cfg)] ''z-noise'') [] g1"
    obtain rz g2 where pz: "?pz = (rz, g2)" by (cases ?pz)
    show ?thesis
    proof (cases rz)
      case (Inl e)
      with pz have "\<exists>msg. e = FrameworkError msg"
        by (auto simp: call_def split: prod.splits sum.splits)
      with Inl px pz xt True show ?thesis by (auto simp: SAGAN_init_def seq_def)
    next
      case zt: (Inr zt)
      let ?self = "init_fields cfg xt zt"
      obtain e where b: "build_sagan fw (?self, g2) =
            (Inl e, (?self, snd (generator fw ?self zt None True g2)))"
        and ge: "fst (generator fw ?self zt None True g2) = Inl e"
        using build_sagan_init_fields [of fw cfg xt zt g2] by blast
      have "fst (SAGAN_init fw cfg g) = Inl e"
        using px pz xt zt True b by (simp add: SAGAN_init_def seq_def)
      moreover have "e = TypeError \<or> (\<exists>msg. e = FrameworkError msg)"
        using generator_init_fields [of fw cfg xt zt zt None True g2] ge
        by auto
      ultimately show ?thesis using True by auto
    qed
  qed
qed

lemma py_def_init_params: "py_def init_params = Inl SyntaxError"
  by (simp add: py_def_def init_params_def)

lemma SAGAN_init_default_sym:
  "SAGAN_init sym_fw default_config [] =
     (Inl TypeError,
      [Node (Placeholder [None, Some 32, Some 32, Some 3] ''x-image'') [],
       Node (Placeholder [None, Some 128] ''z-noise'') [],
       Node (Scoped ''generator'' None (Dense 8192 ''gen-fc-1''))
        [Node (Placeholder [None, Some 128] ''z-noise'') []],
       Node (Scoped ''generator'' None Relu)
        [Node (Scoped ''generator'' None (Dense 8192 ''gen-fc-1''))
          [Node (Placeholder [None, Some 128] ''z-noise'') []]],
       Node (Scoped ''generator'' None (Reshape [- 1, 4, 4, 512]))
        [Node (Scoped ''generator'' None Relu)
          [Node (Scoped ''generator'' None (Dense 8192 ''gen-fc-1''))
            [Node (Placeholder [None, Some 128] ''z-noise'') []]]]])"
  by (simp add: SAGAN_init_def build_sagan_def get_self_def on_graph_def generator_def
        seq_def call_def raise_or_def sym_fw_def n_layer_init_fields range_float)
     (simp add: init_fields_def default_config_def)

subsection \<open>The methods on the symbolic framework\<close>

text \<open>
  Reached with an integer layer count, the generator runs through to its \<open>tanh\<close>; the
  discriminator returns its two heads on one flattened feature map, and with
  \<open>reuse=True\<close> it adds no parameter.
\<close>

lemma fmt_d_small:
  "fmt_d 0 = ''0''" "fmt_d 1 = ''1''" "fmt_d 2 = ''2''" "fmt_d 3 = ''3''"
  "fmt_d 4 = ''4''" "fmt_d 5 = ''5''" "fmt_d 6 = ''6''"
  by (simp_all add: fmt_d_def)

lemma discriminator_sym_heads:
  "\<exists>net g'. discriminator sym_fw self x reuse g =
     (Inr (Node (Scoped ''discriminator'' reuse (Dense (n_classes self) ''disc-fc-cat'')) [net],
           Node (Scoped ''discriminator'' reuse (Dense 1 ''disc-fc-disc'')) [net],
           net), g')"
  by (simp add: discriminator_def seq_def call_def raise_or_def sym_fw_def ret_def
        disc_stage_def upto.simps)

lemma discriminator_sym_reuse:
  "trainable_variables sym_fw (snd (discriminator sym_fw self x (Some True) g)) =
     trainable_variables sym_fw g"
  by (simp add: discriminator_def seq_def call_def raise_or_def sym_fw_def ret_def
        disc_stage_def upto.simps)

lemma generator_sym_int_layers:
  "\<exists>img g'. generator sym_fw (self\<lparr>n_layer := PyInt 3\<rparr>) z reuse is_train g =
     (Inr (Node (Scoped ''generator'' reuse Tanh) [img]), g')"
  by (simp add: generator_def seq_def call_def raise_or_def sym_fw_def ret_def
        gen_stage_def self_attention_def upto.simps Let_def)

text \<open>
  Lines 167 to 193, were they reached: the losses and the optimizers they would build, and
  the two selections by first letter, which never share a variable.
\<close>

lemma tail_sym_losses:
  "d_loss (fst (snd (build_sagan_tail sym_fw (c_real, d_real, n_real) (c_fake, d_fake, n_fake)
       (self, g)))) =
     Tens (Node Add [Node SceLoss [d_real, Node OnesLike [d_real]],
                     Node SceLoss [d_fake, Node ZerosLike [d_fake]]])
   \<and> g_loss (fst (snd (build_sagan_tail sym_fw (c_real, d_real, n_real) (c_fake, d_fake, n_fake)
       (self, g)))) =
     Tens (Node SceLoss [d_fake, Node OnesLike [d_fake]])"
  by (simp add: build_sagan_tail_def seq_def call_def on_graph_def assign_def get_self_def
        get_graph_def sym_fw_def Let_def)

lemma tail_sym_optimizers:
  "\<exists>d_params g_params.
     d_op (fst (snd (build_sagan_tail sym_fw (c_real, d_real, n_real) (c_fake, d_fake, n_fake)
       (self, g)))) =
       Some (Node (AdamMinimize (lr self * 4) (beta1 self) (beta2 self) d_params)
          [Node Add [Node SceLoss [d_real, Node OnesLike [d_real]],
                     Node SceLoss [d_fake, Node ZerosLike [d_fake]]]])
   \<and> g_op (fst (snd (build_sagan_tail sym_fw (c_real, d_real, n_real) (c_fake, d_fake, n_fake)
       (self, g)))) =
       Some (Node (AdamMinimize (lr self * 1) (beta1 self) (beta2 self) g_params)
          [Node SceLoss [d_fake, Node OnesLike [d_fake]]])"
  by (simp add: build_sagan_tail_def seq_def call_def on_graph_def assign_def get_self_def
        get_graph_def sym_fw_def Let_def)

lemma select_params_disjoint:
  "set (select_params fw CHR ''d'' vs) \<inter> set (select_params fw CHR ''g'' vs) = {}"
proof -
  have "\<not> (startswith n CHR ''d'' \<and> startswith n CHR ''g'')" for n
    by (cases n) simp_all
  then show ?thesis by (auto simp: select_params_def)
qed

subsection \<open>Further facts used below\<close>

lemma seq_ret: "seq (ret x) k = k x"
  by (simp add: seq_def ret_def)

lemma SAGAN_construct_result: "SAGAN_construct fw cfg g = (Inl SyntaxError, g)"
  by (simp add: SAGAN_construct_def py_def_init_params raise_def)

text \<open>
  On the symbolic framework, whose calls never raise, a configuration with equal height and
  width gets through \<open>__init__\<close> as far as the \<open>range\<close> of line 130, whatever its other
  values are.
\<close>

lemma SAGAN_init_sym:
  "height cfg = width cfg \<Longrightarrow> SAGAN_init sym_fw cfg g0 =
     (Inl TypeError,
      g0 @
      [Node (Placeholder [None, Some (height cfg), Some (width cfg), Some (channel cfg)]
               ''x-image'') [],
       Node (Placeholder [None, Some (z_dim cfg)] ''z-noise'') [],
       Node (Scoped ''generator'' None (Dense (4 * 4 * gf_dim cfg * 8) ''gen-fc-1''))
        [Node (Placeholder [None, Some (z_dim cfg)] ''z-noise'') []],
       Node (Scoped ''generator'' None Relu)
        [Node (Scoped ''generator'' None (Dense (4 * 4 * gf_dim cfg * 8) ''gen-fc-1''))
          [Node (Placeholder [None, Some (z_dim cfg)] ''z-noise'') []]],
       Node (Scoped ''generator'' None (Reshape [- 1, 4, 4, gf_dim cfg * 8]))
        [Node (Scoped ''generator'' None Relu)
          [Node (Scoped ''generator'' None (Dense (4 * 4 * gf_dim cfg * 8) ''gen-fc-1''))
            [Node (Placeholder [None, Some (z_dim cfg)] ''z-noise'') []]]]])"
  by (simp add: SAGAN_init_def build_sagan_def get_self_def on_graph_def generator_def
        seq_def call_def raise_or_def sym_fw_def n_layer_init_fields range_float)
     (simp add: init_fields_def)

text \<open>
  Lines 167 to 193 read the second component of each discriminator result and nothing
  else of it.
\<close>

lemma tail_ignores_class_logits:
  "build_sagan_tail fw (c_real, d_real, net_real) (c_fake, d_fake, net_fake) =
   build_sagan_tail fw (c_real', d_real, net_real') (c_fake', d_fake, net_fake')"
  by (simp add: build_sagan_tail_def)

text \<open>
  With an integer layer count the generator on the symbolic framework creates the
  parameters of its dense layer, of three convolution stages and of the last convolution.
\<close>

lemma generator_sym_int_params:
  "trainable_variables sym_fw
     (snd (generator sym_fw (self\<lparr>n_layer := PyInt 3\<rparr>) z None True [])) =
   [''generator/gen-fc-1/weight'', ''generator/gen-fc-1/bias'',
    ''generator/gen-conv2d-1/weight'', ''generator/gen-conv2d-1/bias'',
    ''generator/gen-bn-0/weight'', ''generator/gen-bn-0/bias'',
    ''generator/gen-conv2d-2/weight'', ''generator/gen-conv2d-2/bias'',
    ''generator/gen-bn-1/weight'', ''generator/gen-bn-1/bias'',
    ''generator/gen-conv2d-3/weight'', ''generator/gen-conv2d-3/bias'',
    ''generator/gen-bn-2/weight'', ''generator/gen-bn-2/bias'',
    ''generator/gen-conv2d-5/weight'', ''generator/gen-conv2d-5/bias'']"
  by (simp add: generator_def seq_def call_def raise_or_def sym_fw_def ret_def
        gen_stage_def self_attention_def upto.simps Let_def fmt_d_small)

section \<open>The claims\<close>

text \<open>
  C1: constructing the model with batch_size=100, height=32, width=32, channel=3,
  n_classes=10, z_dim=128 does not raise.  The code raises: the module does not compile
  (\<open>gf_dim\<close> is declared twice), and the body of \<open>__init__\<close> raises on its own as well,
  for every framework and every configuration; on the symbolic framework, at the default
  configuration, it is the \<open>TypeError\<close> of \<open>range\<close>.
\<close>

theorem SAGAN_construction_raises:
  "fst (SAGAN_construct fw cfg g) = Inl SyntaxError
   \<and> (\<exists>e. fst (SAGAN_init fw cfg g) = Inl e)
   \<and> SAGAN_construct sym_fw default_config [] = (Inl SyntaxError, [])
   \<and> fst (SAGAN_init sym_fw default_config []) = Inl TypeError"
proof -
  have "\<exists>e. fst (SAGAN_init fw cfg g) = Inl e"
    using SAGAN_init_result [of fw cfg g] by blast
  then show ?thesis
    by (simp add: SAGAN_construct_def py_def_init_params raise_def SAGAN_init_default_sym)
qed

text \<open>
  C2: the generator's output has shape (batch, height, width, channel).  On the object
  that \<open>__init__\<close> prepares the generator returns no tensor: \<open>range\<close> gets the float
  layer count and raises \<open>TypeError\<close> (unless a framework call has raised before).
\<close>

theorem generator_returns_no_image:
  "(fst (generator fw (init_fields cfg xt zt) z reuse is_train g) = Inl TypeError
    \<or> (\<exists>msg. fst (generator fw (init_fields cfg xt zt) z reuse is_train g)
              = Inl (FrameworkError msg)))
   \<and> fst (generator sym_fw (init_fields default_config xt zt) zt None True g0) = Inl TypeError"
proof -
  have "fst (generator sym_fw (init_fields default_config xt zt) zt None True g0) = Inl TypeError"
    by (simp add: generator_def seq_def call_def raise_or_def sym_fw_def
          n_layer_init_fields range_float)
  with generator_init_fields [of fw cfg xt zt z reuse is_train g] show ?thesis by blast
qed

text \<open>
  C3: the layer count is \<open>log2(height) - 2\<close>, and for height = width = 32 it is 5.
  Line 52 does compute \<open>log2(height) - 2\<close>, but at height 32 that is the float 3, not
  the 5 that the claim and the comment on line 52 itself give: neither the integer 5 nor the
  float 5.
\<close>

theorem n_layer_32_not_5:
  "n_layer_of h = PyFloat (log 2 (real_of_int h) - 2)
   \<and> n_layer_of 32 = PyFloat 3
   \<and> n_layer_of 32 \<noteq> PyInt 5 \<and> n_layer_of 32 \<noteq> PyFloat 5
   \<and> n_layer (init_fields default_config xt zt) = PyFloat 3"
  by (simp add: n_layer_of_def np_log2_def log2_32 init_fields_def default_config_def)

text \<open>
  C4: after construction the discriminator loss is the sum of the two cross-entropies and
  the generator loss is the cross-entropy of the fake logit against ones.  Construction
  stops in the generator, before the losses are assembled: \<open>build_sagan\<close> raises and both
  loss attributes still hold their initial 0.
\<close>

theorem losses_never_assembled:
  "isl (fst (build_sagan fw (init_fields cfg xt zt, g)))
   \<and> d_loss (fst (snd (build_sagan fw (init_fields cfg xt zt, g)))) = Num 0
   \<and> g_loss (fst (snd (build_sagan fw (init_fields cfg xt zt, g)))) = Num 0"
proof -
  obtain e where "build_sagan fw (init_fields cfg xt zt, g) =
      (Inl e, (init_fields cfg xt zt,
               snd (generator fw (init_fields cfg xt zt) zt None True g)))"
    using build_sagan_init_fields [of fw cfg xt zt g] by blast
  then show ?thesis by (simp add: init_fields_def)
qed

text \<open>
  C5: construction builds two optimizer operations, with learning rates 4 times and 1
  times the base rate.  Construction stops in the generator: \<open>d_op\<close> and \<open>g_op\<close> are
  still \<open>None\<close> when \<open>build_sagan\<close> raises, and \<open>__init__\<close> returns no object.
\<close>

theorem optimizers_never_built:
  "d_op (fst (snd (build_sagan fw (init_fields cfg xt zt, g)))) = None
   \<and> g_op (fst (snd (build_sagan fw (init_fields cfg xt zt, g)))) = None
   \<and> (\<forall>self. fst (SAGAN_init fw cfg g) \<noteq> Inr self)"
proof -
  obtain e where "build_sagan fw (init_fields cfg xt zt, g) =
      (Inl e, (init_fields cfg xt zt,
               snd (generator fw (init_fields cfg xt zt) zt None True g)))"
    using build_sagan_init_fields [of fw cfg xt zt g] by blast
  moreover have "\<forall>self. fst (SAGAN_init fw cfg g) \<noteq> Inr self"
    using SAGAN_init_result [of fw cfg g] by auto
  ultimately show ?thesis by (simp add: init_fields_def)
qed

text \<open>
  C6: the generator and discriminator parameter sets, selected by name prefix, are
  disjoint, cover the trainable variables, and each optimizer updates its own set.  At the
  default configuration the graph left by the aborted construction holds the two
  placeholders and the first three nodes of the generator, and nothing else: no optimizer,
  no discriminator parameter, a single generator layer.
\<close>

theorem parameter_sets_never_selected:
  "snd (SAGAN_init sym_fw default_config []) =
     [Node (Placeholder [None, Some 32, Some 32, Some 3] ''x-image'') [],
      Node (Placeholder [None, Some 128] ''z-noise'') [],
      Node (Scoped ''generator'' None (Dense 8192 ''gen-fc-1''))
       [Node (Placeholder [None, Some 128] ''z-noise'') []],
      Node (Scoped ''generator'' None Relu)
       [Node (Scoped ''generator'' None (Dense 8192 ''gen-fc-1''))
         [Node (Placeholder [None, Some 128] ''z-noise'') []]],
      Node (Scoped ''generator'' None (Reshape [- 1, 4, 4, 512]))
       [Node (Scoped ''generator'' None Relu)
         [Node (Scoped ''generator'' None (Dense 8192 ''gen-fc-1''))
           [Node (Placeholder [None, Some 128] ''z-noise'') []]]]]
   \<and> select_params sym_fw CHR ''d''
        (trainable_variables sym_fw (snd (SAGAN_init sym_fw default_config []))) = []
   \<and> select_params sym_fw CHR ''g''
        (trainable_variables sym_fw (snd (SAGAN_init sym_fw default_config []))) =
       [''generator/gen-fc-1/weight'', ''generator/gen-fc-1/bias'']"
  by (simp add: SAGAN_init_default_sym) (simp add: sym_fw_def select_params_def)

text \<open>
  C7: the second discriminator invocation reuses the parameters of the first.  Neither
  invocation happens: the graph that \<open>build_sagan\<close> leaves is the graph the generator call
  left, and \<open>self.g\<close> is never assigned.
\<close>

theorem discriminator_never_invoked:
  "snd (snd (build_sagan fw (init_fields cfg xt zt, g))) =
     snd (generator fw (init_fields cfg xt zt) zt None True g)
   \<and> g_img (fst (snd (build_sagan fw (init_fields cfg xt zt, g)))) = None"
proof -
  obtain e where "build_sagan fw (init_fields cfg xt zt, g) =
      (Inl e, (init_fields cfg xt zt,
               snd (generator fw (init_fields cfg xt zt) zt None True g)))"
    using build_sagan_init_fields [of fw cfg xt zt g] by blast
  then show ?thesis by (simp add: init_fields_def)
qed

text \<open>
  C8: the assertion that height equals width is the only explicit input validation; when
  they differ construction aborts at once with a fatal error, and when they are equal the
  assertion does not fire.  With different height and width the body of \<open>__init__\<close>
  raises \<open>AssertionError\<close> before any framework call (the graph is untouched), and
  construction as a whole, which stops at the signature, aborts without touching the graph
  either.  With equal height and width neither raises \<open>AssertionError\<close>; what the body
  raises then comes from a framework call or from \<open>range\<close>, and on the symbolic
  framework every such configuration, whatever its other values, passes both placeholders
  and the first three calls of the generator: nothing else is validated.
\<close>

theorem height_width_assertion:
  "(height cfg \<noteq> width cfg \<longrightarrow>
       SAGAN_init fw cfg g = (Inl AssertionError, g)
     \<and> isl (fst (SAGAN_construct fw cfg g)) \<and> snd (SAGAN_construct fw cfg g) = g)
   \<and> (height cfg = width cfg \<longrightarrow>
       fst (SAGAN_init fw cfg g) \<noteq> Inl AssertionError
     \<and> (fst (SAGAN_init fw cfg g) = Inl TypeError
        \<or> (\<exists>msg. fst (SAGAN_init fw cfg g) = Inl (FrameworkError msg)))
     \<and> fst (SAGAN_construct fw cfg g) \<noteq> Inl AssertionError
     \<and> SAGAN_init sym_fw cfg g0 =
         (Inl TypeError,
          g0 @
          [Node (Placeholder [None, Some (height cfg), Some (width cfg), Some (channel cfg)]
                   ''x-image'') [],
           Node (Placeholder [None, Some (z_dim cfg)] ''z-noise'') [],
           Node (Scoped ''generator'' None (Dense (4 * 4 * gf_dim cfg * 8) ''gen-fc-1''))
            [Node (Placeholder [None, Some (z_dim cfg)] ''z-noise'') []],
           Node (Scoped ''generator'' None Relu)
            [Node (Scoped ''generator'' None (Dense (4 * 4 * gf_dim cfg * 8) ''gen-fc-1''))
              [Node (Placeholder [None, Some (z_dim cfg)] ''z-noise'') []]],
           Node (Scoped ''generator'' None (Reshape [- 1, 4, 4, gf_dim cfg * 8]))
            [Node (Scoped ''generator'' None Relu)
              [Node (Scoped ''generator'' None (Dense (4 * 4 * gf_dim cfg * 8) ''gen-fc-1''))
                [Node (Placeholder [None, Some (z_dim cfg)] ''z-noise'') []]]]]))"
  using SAGAN_init_result [of fw cfg g] SAGAN_construct_result [of fw cfg g]
    SAGAN_init_sym [of cfg g0]
  by (auto simp: SAGAN_init_def raise_def)

theorem height_width_assertion_witness:
  "height (default_config\<lparr>width := 16\<rparr>) \<noteq> width (default_config\<lparr>width := 16\<rparr>)
   \<and> SAGAN_init sym_fw (default_config\<lparr>width := 16\<rparr>) [] = (Inl AssertionError, [])
   \<and> isl (fst (SAGAN_construct sym_fw (default_config\<lparr>width := 16\<rparr>) []))
   \<and> height default_config = width default_config
   \<and> fst (SAGAN_init sym_fw default_config []) \<noteq> Inl AssertionError
   \<and> fst (SAGAN_construct sym_fw default_config []) \<noteq> Inl AssertionError
   \<and> snd (SAGAN_init sym_fw default_config []) =
       [Node (Placeholder [None, Some 32, Some 32, Some 3] ''x-image'') [],
        Node (Placeholder [None, Some 128] ''z-noise'') [],
        Node (Scoped ''generator'' None (Dense 8192 ''gen-fc-1''))
         [Node (Placeholder [None, Some 128] ''z-noise'') []],
        Node (Scoped ''generator'' None Relu)
         [Node (Scoped ''generator'' None (Dense 8192 ''gen-fc-1''))
           [Node (Placeholder [None, Some 128] ''z-noise'') []]],
        Node (Scoped ''generator'' None (Reshape [- 1, 4, 4, 512]))
         [Node (Scoped ''generator'' None Relu)
           [Node (Scoped ''generator'' None (Dense 8192 ''gen-fc-1''))
             [Node (Placeholder [None, Some 128] ''z-noise'') []]]]]"
  using height_width_assertion [of "default_config\<lparr>width := 16\<rparr>" sym_fw "[]" "[]"]
    height_width_assertion [of default_config sym_fw "[]" "[]"]
  by (simp add: default_config_def)

text \<open>
  C9: the self-attention stage in the generator is an identity passthrough and introduces
  no parameters.  The generator is, for every framework, object and input, the generator
  without the stage; the stage returns the feature map it is given and leaves the graph,
  and so the trainable variables, as they were; and on the symbolic framework, where an
  integer layer count lets the generator run through the stage, no parameter of an
  attention layer is among the ones it creates.
\<close>

theorem self_attention_passthrough:
  "generator fw self z reuse is_train = generator_without_attention fw self z reuse is_train
   \<and> self_attention x g = (Inr x, g)
   \<and> trainable_variables fw (snd (self_attention x g)) = trainable_variables fw g
   \<and> seq (self_attention x) k = k x
   \<and> trainable_variables sym_fw
       (snd (generator sym_fw (self0\<lparr>n_layer := PyInt 3\<rparr>) z0 None True [])) =
     [''generator/gen-fc-1/weight'', ''generator/gen-fc-1/bias'',
      ''generator/gen-conv2d-1/weight'', ''generator/gen-conv2d-1/bias'',
      ''generator/gen-bn-0/weight'', ''generator/gen-bn-0/bias'',
      ''generator/gen-conv2d-2/weight'', ''generator/gen-conv2d-2/bias'',
      ''generator/gen-bn-1/weight'', ''generator/gen-bn-1/bias'',
      ''generator/gen-conv2d-3/weight'', ''generator/gen-conv2d-3/bias'',
      ''generator/gen-bn-2/weight'', ''generator/gen-bn-2/bias'',
      ''generator/gen-conv2d-5/weight'', ''generator/gen-conv2d-5/bias'']"
proof -
  have "generator fw self z reuse is_train = generator_without_attention fw self z reuse is_train"
    by (simp add: generator_def generator_without_attention_def self_attention_def seq_ret)
  moreover have "self_attention x g = (Inr x, g)"
    by (simp add: self_attention_def ret_def)
  moreover have "seq (self_attention x) k = k x"
    by (simp add: self_attention_def seq_ret)
  ultimately show ?thesis
    by (simp add: generator_sym_int_params)
qed

text \<open>
  C10: both discriminator invocations compute a class-logit vector, no classification loss
  is assembled from them, \<open>c_loss\<close> is still 0 after construction and neither loss depends
  on the class logits.  Construction stops in the generator: \<open>build_sagan\<close> raises with
  the object exactly as lines 43 to 86 left it (\<open>c_loss\<close> is 0 because no loss of any kind
  was assembled), the discriminator is not invoked, and at the default configuration no
  class-logit layer is in the graph.
\<close>

theorem class_logits_never_computed:
  "fst (snd (build_sagan fw (init_fields cfg xt zt, g))) = init_fields cfg xt zt
   \<and> isl (fst (build_sagan fw (init_fields cfg xt zt, g)))
   \<and> c_loss (init_fields cfg xt zt) = Num 0
   \<and> Node (Scoped ''discriminator'' reuse (Dense (n_classes default_config) ''disc-fc-cat''))
        [net] \<notin> set (snd (SAGAN_init sym_fw default_config []))"
proof -
  obtain e where "build_sagan fw (init_fields cfg xt zt, g) =
      (Inl e, (init_fields cfg xt zt,
               snd (generator fw (init_fields cfg xt zt) zt None True g)))"
    using build_sagan_init_fields [of fw cfg xt zt g] by blast
  then show ?thesis by (simp add: SAGAN_init_default_sym) (simp add: init_fields_def)
qed

end
